theory Spec2Isabelle
  imports Main "HOL-Library.Word" "HOL-Library.Multiset"
begin

section \<open>Constants and errors of client.go\<close>

definition BlockDetailPath :: string where
  "BlockDetailPath = ''/eth/v2/beacon/blocks/''"

definition StatePath :: string where
  "StatePath = ''/eth/v1/beacon/states/''"

definition MevFeeCalculationFactor :: int where
  "MevFeeCalculationFactor = 3"

definition BlocksAvailableAfterSlot :: int where
  "BlocksAvailableAfterSlot = 4700012"

definition GWEI :: int where
  "GWEI = 1000000000"

text \<open>
  The two error types of the source carry their message. The other constructors stand for
  the errors the source passes on without giving them a type of its own: the
  \<open>errors.New\<close> of the slot parser, a failure of the HTTP client (request creation,
  round trip or body read), a failure of \<open>json.Unmarshal\<close>, a failure of the execution
  client, a cancelled context, and a Go runtime panic.
\<close>

datatype error =
    SlotMissingError string
  | FutureSlotError string
  | ParseError string
  | TransportError
  | UnmarshalError
  | RPCError
  | ContextCanceled
  | RuntimePanic

section \<open>The library values the client computes with\<close>

subsection \<open>\<open>big.Int.SetString(s, 10)\<close>\<close>

text \<open>
  The parser of \<open>math/big\<close> in base 10: an optional sign \<open>+\<close> or \<open>-\<close>, then one or
  more decimal digits, and the whole string must be used up.
\<close>

definition digitVal :: "char \<Rightarrow> nat option" where
  "digitVal c = map_of
     [(CHR ''0'', 0), (CHR ''1'', 1), (CHR ''2'', 2), (CHR ''3'', 3), (CHR ''4'', 4),
      (CHR ''5'', 5), (CHR ''6'', 6), (CHR ''7'', 7), (CHR ''8'', 8), (CHR ''9'', 9)] c"

fun scanDigits :: "nat \<Rightarrow> string \<Rightarrow> nat option" where
  "scanDigits acc [] = Some acc"
| "scanDigits acc (c # cs) =
     (case digitVal c of None \<Rightarrow> None | Some d \<Rightarrow> scanDigits (10 * acc + d) cs)"

fun scanSign :: "string \<Rightarrow> bool \<times> string" where
  "scanSign [] = (False, [])"
| "scanSign (c # cs) =
     (if c = CHR ''-'' then (True, cs) else if c = CHR ''+'' then (False, cs)
      else (False, c # cs))"

definition SetString :: "string \<Rightarrow> int option" where
  "SetString s =
     (case scanSign s of (neg, ds) \<Rightarrow>
        if ds = [] then None
        else (case scanDigits 0 ds of
                None \<Rightarrow> None
              | Some n \<Rightarrow> Some (if neg then - int n else int n)))"

subsection \<open>\<open>big.Float\<close>: \<open>SetInt\<close>, \<open>Quo\<close> and \<open>Text('f', n)\<close>\<close>

text \<open>
  A \<open>big.Float\<close> is a sign, a mantissa and a binary exponent, with a precision in bits;
  here its value is \<open>\<plusminus> fmant * 2 ^ fexp\<close>, and zero has mantissa 0. The default
  rounding mode of the package, which the source never changes, rounds to the nearest
  value, ties to even.
\<close>

record bigFloat =
  fprec :: nat
  fneg :: bool
  fmant :: nat
  fexp :: int

fun bitLen :: "nat \<Rightarrow> nat" where
  "bitLen n = (if n = 0 then 0 else Suc (bitLen (n div 2)))"

declare bitLen.simps [simp del]

text \<open>\<open>SetInt\<close> on a fresh Float: the precision becomes the larger of the bit length and 64,
  so the integer is taken over exactly.\<close>

definition SetInt :: "int \<Rightarrow> bigFloat" where
  "SetInt x = \<lparr>fprec = max (bitLen (nat \<bar>x\<bar>)) 64, fneg = (x < 0), fmant = nat \<bar>x\<bar>, fexp = 0\<rparr>"

text \<open>The integer nearest to \<open>n / d\<close>, ties to even.\<close>

definition roundHalfEven :: "nat \<Rightarrow> nat \<Rightarrow> nat" where
  "roundHalfEven n d =
     (let q = n div d; r = n mod d
      in if 2 * r < d then q
         else if d < 2 * r then q + 1
         else if even q then q else q + 1)"

text \<open>
  \<open>Quo\<close> on a fresh Float: the precision \<open>p\<close> is the larger of the operands' precisions
  and the quotient is rounded to \<open>p\<close> mantissa bits. The shift \<open>k\<close> is the one that
  brings the quotient of the mantissas into \<open>[2 ^ (p - 1), 2 ^ p)\<close>. The divisor is
  finite and not zero (in the source it is always \<open>GWEI\<close>); infinities are not modelled.
\<close>

definition quoShift :: "nat \<Rightarrow> nat \<Rightarrow> nat \<Rightarrow> int" where
  "quoShift p a b =
     (let k0 = int p + int (bitLen b) - int (bitLen a)
      in if 2 ^ p * (b * 2 ^ nat (- k0)) \<le> a * 2 ^ nat k0 then k0 - 1 else k0)"

definition Quo :: "bigFloat \<Rightarrow> bigFloat \<Rightarrow> bigFloat" where
  "Quo x y =
     (let p = max (fprec x) (fprec y); sg = (fneg x \<noteq> fneg y)
      in if fmant x = 0 then \<lparr>fprec = p, fneg = sg, fmant = 0, fexp = 0\<rparr>
         else let k = quoShift p (fmant x) (fmant y)
              in \<lparr>fprec = p, fneg = sg,
                  fmant = roundHalfEven (fmant x * 2 ^ nat k) (fmant y * 2 ^ nat (- k)),
                  fexp = fexp x - fexp y - k\<rparr>)"

definition digitChar :: "nat \<Rightarrow> char" where
  "digitChar d = ''0123456789'' ! d"

fun decimal :: "nat \<Rightarrow> string" where
  "decimal n = (if n < 10 then [digitChar n] else decimal (n div 10) @ [digitChar (n mod 10)])"

declare decimal.simps [simp del]

text \<open>The \<open>n\<close> digits after the point of \<open>v / 10 ^ n\<close>, leading zeros kept.\<close>

definition fraction :: "nat \<Rightarrow> nat \<Rightarrow> string" where
  "fraction n v = map (\<lambda>i. digitChar ((v div 10 ^ (n - 1 - i)) mod 10)) [0..<n]"

text \<open>
  \<open>Text('f', n)\<close>: the sign when the Float is negative, then the exact decimal expansion
  of the magnitude rounded (ties to even) to \<open>n\<close> digits after the point: the integer
  part without leading zeros, a point, and \<open>n\<close> digits.
\<close>

definition Text_f :: "bigFloat \<Rightarrow> nat \<Rightarrow> string" where
  "Text_f x n =
     (let v = (if 0 \<le> fexp x then fmant x * 10 ^ n * 2 ^ nat (fexp x)
               else roundHalfEven (fmant x * 10 ^ n) (2 ^ nat (- fexp x)))
      in (if fneg x then ''-'' else '''') @ decimal (v div 10 ^ n) @
         (if 0 < n then ''.'' @ fraction n v else ''''))"

subsection \<open>Blocks, transactions and receipts of the execution client\<close>

type_synonym hash = string

text \<open>A hash is kept as the hex string it is decoded from.\<close>

definition HexToHash :: "string \<Rightarrow> hash" where
  "HexToHash s = s"

record transaction =
  txHash :: hash
  txGasPrice :: int
  txGas :: "64 word"
  txValue :: int
  txBlobGasFeeCap :: int
  txBlobGas :: "64 word"

text \<open>
  \<open>Transaction.Cost\<close> of go-ethereum, which the source calls for the fallback cost:
  gas price times gas limit, plus the blob fee (the blob gas of a transaction that is
  not a blob transaction is 0), plus the value the transaction transfers.
\<close>

definition Cost :: "transaction \<Rightarrow> int" where
  "Cost tx = txGasPrice tx * uint (txGas tx) + txBlobGasFeeCap tx * uint (txBlobGas tx)
             + txValue tx"

text \<open>
  Of a receipt and a block the fields the source reads. The gas counters are unsigned
  64-bit values; the prices are \<open>big.Int\<close>. The base fee and the effective gas price are
  present: the blocks the query reaches lie above \<open>BlocksAvailableAfterSlot\<close>, after the
  fork that introduced them.
\<close>

record receipt =
  EffectiveGasPrice :: int
  receiptGasUsed :: "64 word"

record block =
  BaseFee :: int
  GasUsed :: "64 word"
  Transactions :: "transaction list"

section \<open>The client\<close>

text \<open>
  What the upstream answers to a GET of the REST layer: the request fails on the way, or
  there is a status code and a body, which \<open>json.Unmarshal\<close> decodes into the typed
  response (\<open>None\<close>: it returns an error). Of each response only the fields the source
  reads are kept: the slot strings of the header list, the block hash string, the
  validator indexes, the public keys.
\<close>

datatype 'a reply = Failed | Reply nat "'a option"

text \<open>
  The client is its base URL and the upstream behind its two fields \<open>httpClient\<close> (one
  function per REST response type, from the request URL) and \<open>w3Client\<close> (block by hash
  and receipt by transaction hash, \<open>None\<close> when the call returns an error).
\<close>

record Web3Client =
  BaseUrl :: string
  headersReply :: "string \<Rightarrow> string list reply"
  blockDetailReply :: "string \<Rightarrow> string reply"
  syncCommitteesReply :: "string \<Rightarrow> string list reply"
  validatorsReply :: "string \<Rightarrow> string list reply"
  BlockByHash :: "hash \<Rightarrow> block option"
  TransactionReceipt :: "hash \<Rightarrow> receipt option"

text \<open>Every function returns, before its result, the upstream calls it made, in order.\<close>

datatype call = RestGet string | RpcBlockByHash hash | RpcTransactionReceipt hash

definition sendAPIRequest :: "'a reply \<Rightarrow> error + 'a" where
  "sendAPIRequest r =
     (case r of
        Failed \<Rightarrow> Inl TransportError
      | Reply StatusCode body \<Rightarrow>
          if StatusCode = 404 then Inl (FutureSlotError ''Slot is in the future'')
          else if StatusCode = 400 then Inl (SlotMissingError ''Slot is not found'')
          else (case body of None \<Rightarrow> Inl UnmarshalError | Some v \<Rightarrow> Inr v))"

definition getBlockHash :: "Web3Client \<Rightarrow> string \<Rightarrow> call list \<times> (error + hash)" where
  "getBlockHash c slotId =
     (let endpoint = BaseUrl c @ BlockDetailPath @ slotId
      in ([RestGet endpoint],
          case sendAPIRequest (blockDetailReply c endpoint) of
            Inl err \<Rightarrow> Inl err
          | Inr blockHash \<Rightarrow> Inr (HexToHash blockHash)))"

definition getSyncCommitteesValidatorIndexes ::
    "Web3Client \<Rightarrow> string \<Rightarrow> call list \<times> (error + string list)" where
  "getSyncCommitteesValidatorIndexes c slotId =
     (let endpoint = BaseUrl c @ StatePath @ slotId @ ''/sync_committees''
      in ([RestGet endpoint], sendAPIRequest (syncCommitteesReply c endpoint)))"

text \<open>The query string of the validators request: \<open>?id=a&id=b\<close>, nothing for no index.\<close>

fun idParams :: "nat \<Rightarrow> string list \<Rightarrow> string" where
  "idParams index [] = ''''"
| "idParams index (validatorIndex # rest) =
     (if index = 0 then ''?'' else '''') @ ''id='' @ validatorIndex @
     (if rest \<noteq> [] then ''&'' else '''') @ idParams (index + 1) rest"

definition getPubKeysOfSyncCommittees ::
    "Web3Client \<Rightarrow> string \<Rightarrow> string list \<Rightarrow> call list \<times> (error + string list)" where
  "getPubKeysOfSyncCommittees c slotId validatorIndexes =
     (let endpoint = BaseUrl c @ StatePath @ slotId @ ''/validators''
                     @ idParams 0 validatorIndexes
      in ([RestGet endpoint], sendAPIRequest (validatorsReply c endpoint)))"

text \<open>
  \<open>getCurrentSlotId\<close> reads \<open>header.Data[0]\<close> without looking at the length of the
  list: on an empty list the index is out of range and the function panics.
\<close>

definition getCurrentSlotId :: "Web3Client \<Rightarrow> call list \<times> (error + int)" where
  "getCurrentSlotId c =
     (let slotIdEndpoint = BaseUrl c @ ''/eth/v1/beacon/headers''
      in ([RestGet slotIdEndpoint],
          case sendAPIRequest (headersReply c slotIdEndpoint) of
            Inl err \<Rightarrow> Inr 0
          | Inr header \<Rightarrow>
              (case header of
                 [] \<Rightarrow> Inl RuntimePanic
               | slot # _ \<Rightarrow>
                   (case SetString slot of None \<Rightarrow> Inr 0 | Some slotAsInt \<Rightarrow> Inr slotAsInt))))"

text \<open>
  One pass of the loop over the transactions: the cost and the gas price of the
  transaction, from the receipt when its fetch succeeds. \<open>int64(receipt.GasUsed)\<close>
  reads the unsigned counter as a signed 64-bit value.
\<close>

definition txCostAndPrice :: "Web3Client \<Rightarrow> transaction \<Rightarrow> int \<times> int" where
  "txCostAndPrice c tx =
     (case TransactionReceipt c (txHash tx) of
        None \<Rightarrow> (Cost tx, txGasPrice tx)
      | Some receipt \<Rightarrow>
          (EffectiveGasPrice receipt * sint (receiptGasUsed receipt), EffectiveGasPrice receipt))"

fun txLoop :: "Web3Client \<Rightarrow> block \<Rightarrow> transaction list \<Rightarrow> int \<times> string \<Rightarrow> int \<times> string" where
  "txLoop c blk [] (txCosts, status) = (txCosts, status)"
| "txLoop c blk (tx # txs) (txCosts, status) =
     (case txCostAndPrice c tx of (cost, gasPrice) \<Rightarrow>
        txLoop c blk txs
          (txCosts + cost,
           if BaseFee blk * MevFeeCalculationFactor < gasPrice then ''mev'' else status))"

text \<open>The part of \<open>GetBlockRewardAndStatusBySlot\<close> after the block has been fetched.\<close>

definition rewardAndStatus :: "Web3Client \<Rightarrow> block \<Rightarrow> string \<times> string" where
  "rewardAndStatus c blk =
     (let burntFees = BaseFee blk * sint (GasUsed blk)
      in case txLoop c blk (Transactions blk) (0, ''vanilla'') of (txCosts, status) \<Rightarrow>
           let reward = txCosts - burntFees;
               rewardAsFloat = Quo (SetInt reward) (SetInt GWEI);
               rewardAsText = Text_f rewardAsFloat 9
           in (rewardAsText, status))"

definition GetBlockRewardAndStatusBySlot ::
    "Web3Client \<Rightarrow> string \<Rightarrow> call list \<times> (error + string \<times> string)" where
  "GetBlockRewardAndStatusBySlot c slotId =
     (case SetString slotId of
        None \<Rightarrow> ([], Inl (ParseError ''can not convert slotId to bigInt''))
      | Some slotIdAsInt \<Rightarrow>
          if \<not> BlocksAvailableAfterSlot < slotIdAsInt
          then ([], Inl (SlotMissingError ''Slot is missing''))
          else (case getCurrentSlotId c of
                  (l1, Inl err) \<Rightarrow> (l1, Inl err)
                | (l1, Inr currentSlotId) \<Rightarrow>
                    if currentSlotId < slotIdAsInt
                    then (l1, Inl (FutureSlotError ''Slot is in the future''))
                    else (case getBlockHash c slotId of
                            (l2, Inl err) \<Rightarrow> (l1 @ l2, Inl err)
                          | (l2, Inr blockHash) \<Rightarrow>
                              (case BlockByHash c blockHash of
                                 None \<Rightarrow> (l1 @ l2 @ [RpcBlockByHash blockHash], Inl RPCError)
                               | Some blk \<Rightarrow>
                                   (l1 @ l2 @ [RpcBlockByHash blockHash]
                                      @ map (\<lambda>tx. RpcTransactionReceipt (txHash tx))
                                          (Transactions blk),
                                    Inr (rewardAndStatus c blk))))))"

definition GetSyncCommitteeDuties ::
    "Web3Client \<Rightarrow> string \<Rightarrow> call list \<times> (error + string list)" where
  "GetSyncCommitteeDuties c slotId =
     (case getSyncCommitteesValidatorIndexes c slotId of
        (l1, Inl err) \<Rightarrow> (l1, Inl err)
      | (l1, Inr validatorIndexes) \<Rightarrow>
          (case getPubKeysOfSyncCommittees c slotId validatorIndexes of
             (l2, Inl err) \<Rightarrow> (l1 @ l2, Inl err)
           | (l2, Inr pubKeys) \<Rightarrow> (l1 @ l2, Inr pubKeys)))"

section \<open>The handlers of main.go\<close>

text \<open>
  What a handler passes to \<open>c.JSON\<close>: the status code and the value to render
  (\<open>nil\<close>, the map with the key \<open>error\<close>, the map with the keys \<open>reward\<close> and
  \<open>status\<close>, or the list of public keys). A panic of the client unwinds through the
  handler to the recovery middleware of \<open>gin.Default()\<close>, which answers 500 with no
  value.
\<close>

datatype payload =
    NilBody
  | ErrorBody string
  | RewardBody string string
  | PubKeysBody "string list"

definition GetBlockRewardHandler :: "Web3Client \<Rightarrow> string \<Rightarrow> nat \<times> payload" where
  "GetBlockRewardHandler client slotId =
     (case snd (GetBlockRewardAndStatusBySlot client slotId) of
        Inl err \<Rightarrow>
          (case err of
             SlotMissingError msg \<Rightarrow> (404, ErrorBody msg)
           | FutureSlotError msg \<Rightarrow> (400, ErrorBody msg)
           | _ \<Rightarrow> (500, NilBody))
      | Inr (reward, status) \<Rightarrow> (200, RewardBody reward status))"

definition GetSyncDutiesHandler :: "Web3Client \<Rightarrow> string \<Rightarrow> nat \<times> payload" where
  "GetSyncDutiesHandler client slotId =
     (case snd (GetSyncCommitteeDuties client slotId) of
        Inl err \<Rightarrow>
          (case err of
             SlotMissingError msg \<Rightarrow> (404, ErrorBody msg)
           | FutureSlotError msg \<Rightarrow> (400, ErrorBody msg)
           | _ \<Rightarrow> (500, NilBody))
      | Inr pubKeys \<Rightarrow> (200, PubKeysBody pubKeys))"

section \<open>The rate-limited transport\<close>

text \<open>
  A context is the background context, which is never cancelled, or the context of the
  inbound request, with the flag: it is cancelled while a call waits for its token.
  \<open>Wait\<close> is \<open>rate.Limiter.Wait\<close> for a positive rate and the burst 1 of
  \<open>NewWeb3Client\<close>: it returns once a token is there, and fails only when the context it
  is given is cancelled first.
\<close>

datatype goContext = Background | Inbound bool

record request =
  reqContext :: goContext
  reqURL :: string

definition Wait :: "goContext \<Rightarrow> error option" where
  "Wait ctx =
     (case ctx of
        Background \<Rightarrow> None
      | Inbound cancelled \<Rightarrow> if cancelled then Some ContextCanceled else None)"

record 'a rateLimitTransport =
  rateLimiter :: "goContext \<Rightarrow> error option"
  transport :: "request \<Rightarrow> error + 'a"

definition RoundTrip :: "'a rateLimitTransport \<Rightarrow> request \<Rightarrow> error + 'a" where
  "RoundTrip rlt req =
     (case rateLimiter rlt Background of
        Some err \<Rightarrow> Inl err
      | None \<Rightarrow> transport rlt req)"

text \<open>
  The inner transport is \<open>http.DefaultTransport\<close>: it gives up with the error of the
  context when the context of the request is cancelled, and otherwise returns what the
  upstream answers for the URL.
\<close>

definition DefaultTransport :: "(string \<Rightarrow> error + 'a) \<Rightarrow> request \<Rightarrow> error + 'a" where
  "DefaultTransport upstream req =
     (case Wait (reqContext req) of
        Some err \<Rightarrow> Inl err
      | None \<Rightarrow> upstream (reqURL req))"

text \<open>
  The two kinds of outbound call made while an inbound request with the context \<open>ctx\<close>
  is served. \<open>sendAPIRequest\<close> builds its request with \<open>http.NewRequest\<close>, which gives
  it the background context: \<open>ctx\<close> is not passed on. The execution client is called with
  \<open>ctx\<close> (\<open>BlockByHash(ctx, ...)\<close>, \<open>TransactionReceipt(ctx, ...)\<close>), and its request
  carries it.
\<close>

definition NewRequest :: "string \<Rightarrow> request" where
  "NewRequest url = \<lparr>reqContext = Background, reqURL = url\<rparr>"

definition restCall :: "goContext \<Rightarrow> 'a rateLimitTransport \<Rightarrow> string \<Rightarrow> error + 'a" where
  "restCall ctx rlt requestUrl = RoundTrip rlt (NewRequest requestUrl)"

definition rpcCall :: "goContext \<Rightarrow> 'a rateLimitTransport \<Rightarrow> string \<Rightarrow> error + 'a" where
  "rpcCall ctx rlt url = RoundTrip rlt \<lparr>reqContext = ctx, reqURL = url\<rparr>"

text \<open>The transport of \<open>NewWeb3Client\<close> in front of an upstream.\<close>

definition clientTransport :: "(string \<Rightarrow> error + 'a) \<Rightarrow> 'a rateLimitTransport" where
  "clientTransport upstream = \<lparr>rateLimiter = Wait, transport = DefaultTransport upstream\<rparr>"

definition okUpstream :: "string \<Rightarrow> error + nat" where
  "okUpstream url = Inr 200"

section \<open>Notions of the specification\<close>

text \<open>The query reaches the block: the slot parses, passes both bound checks, its block
  hash is found and the execution client returns the block.\<close>

definition resolves :: "Web3Client \<Rightarrow> string \<Rightarrow> block \<Rightarrow> bool" where
  "resolves c slotId blk =
     (case SetString slotId of
        None \<Rightarrow> False
      | Some s \<Rightarrow>
          BlocksAvailableAfterSlot < s \<and>
          (case snd (getCurrentSlotId c) of
             Inl err \<Rightarrow> False
           | Inr h \<Rightarrow>
               s \<le> h \<and>
               (case snd (getBlockHash c slotId) of
                  Inl err \<Rightarrow> False
                | Inr blockHash \<Rightarrow> BlockByHash c blockHash = Some blk)))"

text \<open>The price and the cost of a transaction as the specification words them.\<close>

definition price :: "Web3Client \<Rightarrow> transaction \<Rightarrow> int" where
  "price c tx =
     (case TransactionReceipt c (txHash tx) of
        None \<Rightarrow> txGasPrice tx
      | Some r \<Rightarrow> EffectiveGasPrice r)"

definition specCost :: "Web3Client \<Rightarrow> transaction \<Rightarrow> int" where
  "specCost c tx =
     (case TransactionReceipt c (txHash tx) of
        None \<Rightarrow> txGasPrice tx * uint (txGas tx)
      | Some r \<Rightarrow> EffectiveGasPrice r * uint (receiptGasUsed r))"

text \<open>The reward in native units as the code accumulates it.\<close>

definition nativeReward :: "Web3Client \<Rightarrow> block \<Rightarrow> int" where
  "nativeReward c blk =
     sum_list (map (\<lambda>tx. fst (txCostAndPrice c tx)) (Transactions blk))
       - BaseFee blk * sint (GasUsed blk)"

text \<open>The exact decimal rendering of \<open>r / 10 ^ 9\<close> with nine digits after the point.\<close>

definition fixed9 :: "int \<Rightarrow> string" where
  "fixed9 r =
     (if r < 0 then ''-'' else []) @ decimal (nat \<bar>r\<bar> div 10 ^ 9) @ ''.''
       @ fraction 9 (nat \<bar>r\<bar>)"

definition isDigit :: "char \<Rightarrow> bool" where
  "isDigit ch = (ch \<in> set ''0123456789'')"

text \<open>A string with an integer part, a point and exactly nine digits after it, behind
  the sign when \<open>neg\<close> holds.\<close>

definition nineDecimals :: "bool \<Rightarrow> string \<Rightarrow> bool" where
  "nineDecimals neg s =
     (let body = (if neg then drop 1 s else s);
          ip = takeWhile isDigit body;
          rest = dropWhile isDigit body
      in take 1 s = (if neg then ''-'' else take 1 ip) \<and> ip \<noteq> [] \<and> take 1 rest = ''.'' \<and>
         length (drop 1 rest) = 9 \<and> list_all isDigit (drop 1 rest))"

text \<open>Integer literals: digits only, and digits behind an optional sign.\<close>

definition unsignedLiteral :: "string \<Rightarrow> bool" where
  "unsignedLiteral s = (s \<noteq> [] \<and> list_all isDigit s)"

definition signedLiteral :: "string \<Rightarrow> bool" where
  "signedLiteral s =
     (case s of
        [] \<Rightarrow> False
      | ch # cs \<Rightarrow> if ch = CHR ''-'' \<or> ch = CHR ''+'' then unsignedLiteral cs
                   else unsignedLiteral s)"

text \<open>The upstream answers a request with the status 400.\<close>

definition status400 :: "'a reply \<Rightarrow> bool" where
  "status400 r = (case r of Failed \<Rightarrow> False | Reply StatusCode body \<Rightarrow> StatusCode = 400)"

section \<open>Sample upstreams\<close>

definition sampleBlock :: block where
  "sampleBlock =
     \<lparr>BaseFee = 10, GasUsed = 42000,
      Transactions =
        [\<lparr>txHash = ''t1'', txGasPrice = 120, txGas = 30000, txValue = 0,
          txBlobGasFeeCap = 0, txBlobGas = 0\<rparr>,
         \<lparr>txHash = ''t2'', txGasPrice = 20, txGas = 21000, txValue = 0,
          txBlobGasFeeCap = 0, txBlobGas = 0\<rparr>]\<rparr>"

definition sampleClient :: Web3Client where
  "sampleClient =
     \<lparr>BaseUrl = ''http://node'',
      headersReply = (\<lambda>u. Reply 200 (Some [''9000000''])),
      blockDetailReply = (\<lambda>u. Reply 200 (Some ''0xb1'')),
      syncCommitteesReply = (\<lambda>u. Reply 200 (Some [''7'', ''8''])),
      validatorsReply = (\<lambda>u. Reply 200 (Some [''0xk7'', ''0xk8''])),
      BlockByHash = (\<lambda>h. Some sampleBlock),
      TransactionReceipt =
        (\<lambda>h. if h = ''t1'' then Some \<lparr>EffectiveGasPrice = 100, receiptGasUsed = 21000\<rparr>
              else None)\<rparr>"

definition withBlock :: "block \<Rightarrow> Web3Client" where
  "withBlock blk = sampleClient\<lparr>BlockByHash := (\<lambda>h. Some blk)\<rparr>"

definition largeRewardBlock :: block where
  "largeRewardBlock =
     \<lparr>BaseFee = 10000000000, GasUsed = 21000,
      Transactions =
        [\<lparr>txHash = ''t2'', txGasPrice = 830000000000001, txGas = 21000, txValue = 0,
          txBlobGasFeeCap = 0, txBlobGas = 0\<rparr>]\<rparr>"

definition largeBurnBlock :: block where
  "largeBurnBlock = \<lparr>BaseFee = 580000000001, GasUsed = 30000000, Transactions = []\<rparr>"

definition reversedBlock :: block where
  "reversedBlock = sampleBlock\<lparr>Transactions := rev (Transactions sampleBlock)\<rparr>"

definition emptyBlock :: block where
  "emptyBlock = \<lparr>BaseFee = 10, GasUsed = 21000, Transactions = []\<rparr>"

definition transferBlock :: block where
  "transferBlock =
     \<lparr>BaseFee = 10, GasUsed = 21000,
      Transactions =
        [\<lparr>txHash = ''t2'', txGasPrice = 20, txGas = 21000, txValue = 1000000000,
          txBlobGasFeeCap = 0, txBlobGas = 0\<rparr>]\<rparr>"

definition emptyHeadersClient :: Web3Client where
  "emptyHeadersClient = sampleClient\<lparr>headersReply := (\<lambda>u. Reply 200 (Some []))\<rparr>"

definition badRequestClient :: Web3Client where
  "badRequestClient = sampleClient\<lparr>syncCommitteesReply := (\<lambda>u. Reply 400 None)\<rparr>"

definition notFoundClient :: Web3Client where
  "notFoundClient = sampleClient\<lparr>syncCommitteesReply := (\<lambda>u. Reply 404 None)\<rparr>"

definition failedClient :: Web3Client where
  "failedClient = sampleClient\<lparr>syncCommitteesReply := (\<lambda>u. Failed)\<rparr>"

section \<open>The query on a resolved block\<close>

lemmas client_defs = sampleClient_def sampleBlock_def withBlock_def

lemmas query_defs = GetBlockRewardAndStatusBySlot_def getCurrentSlotId_def getBlockHash_def
  sendAPIRequest_def SetString_def digitVal_def BlocksAvailableAfterSlot_def HexToHash_def

lemmas float_defs = Text_f_def Quo_def SetInt_def GWEI_def quoShift_def roundHalfEven_def
  Let_def bitLen.simps decimal.simps fraction_def upt_rec digitChar_def

lemma resolved_query:
  "resolves c slotId blk \<Longrightarrow>
   snd (GetBlockRewardAndStatusBySlot c slotId) = Inr (rewardAndStatus c blk)"
  by (auto simp: resolves_def GetBlockRewardAndStatusBySlot_def
           split: option.splits sum.splits prod.splits if_splits)

lemma snd_txCostAndPrice: "snd (txCostAndPrice c tx) = price c tx"
  by (simp add: txCostAndPrice_def price_def split: option.splits)

text \<open>The loop is a fold: it adds the costs up and raises the flag when a price is
  above the threshold.\<close>

lemma txLoop_fold:
  "txLoop c blk txs (acc, st) =
     (acc + sum_list (map (\<lambda>tx. fst (txCostAndPrice c tx)) txs),
      if \<exists>tx \<in> set txs. BaseFee blk * MevFeeCalculationFactor < price c tx
      then ''mev'' else st)"
proof (induction txs arbitrary: acc st)
  case Nil
  show ?case by simp
next
  case (Cons tx txs)
  obtain cost gp where cp: "txCostAndPrice c tx = (cost, gp)"
    by (cases "txCostAndPrice c tx")
  then have gp: "price c tx = gp"
    using snd_txCostAndPrice [of c tx] by simp
  show ?case
    by (simp add: cp gp Cons.IH)
qed

lemma rewardAndStatus_eq:
  "rewardAndStatus c blk =
     (Text_f (Quo (SetInt (nativeReward c blk)) (SetInt GWEI)) 9,
      if \<exists>tx \<in> set (Transactions blk). BaseFee blk * MevFeeCalculationFactor < price c tx
      then ''mev'' else ''vanilla'')"
  by (simp add: rewardAndStatus_def nativeReward_def txLoop_fold Let_def)

lemma sample_resolves: "resolves sampleClient ''4700013'' sampleBlock"
  by (simp add: resolves_def client_defs query_defs)

lemma sample_result:
  "snd (GetBlockRewardAndStatusBySlot sampleClient ''4700013'') = Inr (''0.002100000'', ''mev'')"
  apply (simp add: resolved_query [OF sample_resolves])
  apply (simp add: rewardAndStatus_def txCostAndPrice_def Cost_def client_defs
      MevFeeCalculationFactor_def)
  apply (simp add: float_defs)
  done

section \<open>Classification\<close>

text \<open>
  C2. For every resolved block the query returns a status, and the status is \<open>mev\<close>
  exactly when some transaction's price (the effective gas price when its receipt fetch
  succeeds, the declared gas price otherwise) is strictly above 3 times the base fee, and
  \<open>vanilla\<close> exactly when none is; there is no third status. The flag is monotonic: a
  loop that starts from \<open>mev\<close> ends in \<open>mev\<close>, whatever the transactions.
\<close>

theorem classification:
  assumes "resolves c slotId blk"
  shows "\<exists>reward status.
           snd (GetBlockRewardAndStatusBySlot c slotId) = Inr (reward, status) \<and>
           (status = ''mev'' \<longleftrightarrow>
              (\<exists>tx \<in> set (Transactions blk). 3 * BaseFee blk < price c tx)) \<and>
           (status = ''vanilla'' \<longleftrightarrow>
              \<not> (\<exists>tx \<in> set (Transactions blk). 3 * BaseFee blk < price c tx)) \<and>
           (\<forall>txs acc. snd (txLoop c blk txs (acc, ''mev'')) = ''mev'')"
  using resolved_query [OF assms]
  by (simp add: rewardAndStatus_eq txLoop_fold MevFeeCalculationFactor_def mult.commute)

theorem classification_witness:
  "resolves sampleClient ''4700013'' sampleBlock \<and>
   (\<exists>reward status.
      snd (GetBlockRewardAndStatusBySlot sampleClient ''4700013'') = Inr (reward, status) \<and>
      (status = ''mev'' \<longleftrightarrow>
         (\<exists>tx \<in> set (Transactions sampleBlock). 3 * BaseFee sampleBlock < price sampleClient tx)) \<and>
      (status = ''vanilla'' \<longleftrightarrow>
         \<not> (\<exists>tx \<in> set (Transactions sampleBlock). 3 * BaseFee sampleBlock < price sampleClient tx)) \<and>
      (\<forall>txs acc. snd (txLoop sampleClient sampleBlock txs (acc, ''mev'')) = ''mev''))"
  using classification [OF sample_resolves] sample_resolves by simp

section \<open>The current head slot\<close>

text \<open>
  C7. \<open>getCurrentSlotId\<close> is to return zero on every failure, an empty data list
  included. On the upstream that answers the headers request with status 200 and an empty
  data list the function does not return zero: reading \<open>header.Data[0]\<close> panics.
\<close>

theorem getCurrentSlotId_empty_data:
  "getCurrentSlotId emptyHeadersClient =
     ([RestGet ''http://node/eth/v1/beacon/headers''], Inl RuntimePanic)"
  by (simp add: getCurrentSlotId_def emptyHeadersClient_def sampleClient_def
      sendAPIRequest_def)

section \<open>The wait of the rate limiter\<close>

text \<open>
  C9, as amended. The transport waits for its token on the background context, not on
  the context of the caller: the wait never fails, and the round trip is the round trip
  of the inner transport. A REST call is built without the context of the caller and
  returns what the upstream answers, whatever the state of that context. A call of the
  execution client carries the context of the caller, and fails with the cancellation
  error in the inner transport, after the wait, when the context is cancelled.
\<close>

theorem RoundTrip_wait_background:
  "RoundTrip \<lparr>rateLimiter = Wait, transport = t\<rparr> req = t req \<and>
   restCall ctx (clientTransport upstream) url = upstream url \<and>
   rpcCall ctx (clientTransport upstream) url =
     (case Wait ctx of Some err \<Rightarrow> Inl err | None \<Rightarrow> upstream url)"
  by (simp add: RoundTrip_def restCall_def rpcCall_def clientTransport_def
      DefaultTransport_def NewRequest_def Wait_def split: goContext.splits)

text \<open>The claim as stated fails on a REST call: the context of the caller is cancelled
  during the wait, a wait on that context would fail, and the call returns the answer
  of the upstream.\<close>

theorem RoundTrip_cancelled_counterexample:
  "Wait (Inbound True) = Some ContextCanceled \<and>
   restCall (Inbound True) (clientTransport okUpstream)
     ''http://node/eth/v2/beacon/blocks/4700013'' = Inr 200"
  by (simp add: RoundTrip_def restCall_def clientTransport_def DefaultTransport_def
      NewRequest_def Wait_def okUpstream_def)

section \<open>Rounding and rendering\<close>

lemma div_mod_nat_eqI:
  fixes n q d r :: nat
  assumes "n = q * d + r" "r < d"
  shows "n div d = q" "n mod d = r"
  using assms by simp_all

text \<open>Rounding moves a quotient by at most half a unit.\<close>

lemma roundHalfEven_error:
  assumes "0 < d"
  shows "2 * \<bar>int (roundHalfEven n d) * int d - int n\<bar> \<le> int d"
proof -
  define q r where "q = n div d" and "r = n mod d"
  have n: "int n = int q * int d + int r"
    unfolding q_def r_def by (metis div_mult_mod_eq of_nat_add of_nat_mult)
  have r: "int r < int d"
    unfolding r_def using assms by simp
  have "roundHalfEven n d = q \<and> 2 * int r \<le> int d \<or>
        roundHalfEven n d = q + 1 \<and> int d \<le> 2 * int r"
    unfolding roundHalfEven_def Let_def q_def [symmetric] r_def [symmetric]
    by auto
  then show ?thesis
  proof
    assume "roundHalfEven n d = q \<and> 2 * int r \<le> int d"
    then show ?thesis using n by simp
  next
    assume h: "roundHalfEven n d = q + 1 \<and> int d \<le> 2 * int r"
    then have "int (roundHalfEven n d) * int d - int n = int d - int r"
      using n by (simp add: algebra_simps)
    then show ?thesis using h r by simp
  qed
qed

text \<open>An integer closer than half a unit to the quotient is what rounding returns.\<close>

lemma roundHalfEven_nearest:
  assumes "2 * \<bar>int n - int q * int d\<bar> < int d"
  shows "roundHalfEven n d = q"
proof (cases "int q * int d \<le> int n")
  case True
  define r where "r = n - q * d"
  have le: "q * d \<le> n" using True by (metis of_nat_mult of_nat_le_iff)
  have n: "n = q * d + r" using le by (simp add: r_def)
  have r2: "2 * r < d" using assms True n by simp
  then have "r < d" by simp
  from div_mod_nat_eqI [OF n this] r2 show ?thesis
    by (simp add: roundHalfEven_def Let_def)
next
  case False
  then have lt: "n < q * d" by (metis of_nat_mult of_nat_less_iff not_le)
  then have qpos: "0 < q" by (cases q) auto
  define e where "e = q * d - n"
  have e2: "2 * e < d"
  proof -
    have "int e = int q * int d - int n" using lt by (simp add: e_def of_nat_diff)
    with assms False have "2 * int e < int d" by simp
    then show ?thesis by (metis of_nat_less_iff of_nat_mult of_nat_numeral)
  qed
  have epos: "0 < e" using lt by (simp add: e_def)
  define r where "r = d - e"
  have rd: "r < d" using epos e2 by (simp add: r_def)
  have "q * d = (q - 1) * d + d" using qpos by (cases q) simp_all
  then have n: "n = (q - 1) * d + r" using e2 lt by (simp add: r_def e_def)
  have "d < 2 * r" using e2 by (simp add: r_def)
  with div_mod_nat_eqI [OF n rd] qpos show ?thesis
    by (simp add: roundHalfEven_def Let_def)
qed

lemma bitLen_le: "n < 2 ^ k \<Longrightarrow> bitLen n \<le> k"
proof (induction k arbitrary: n)
  case 0
  then show ?case by (simp add: bitLen.simps)
next
  case (Suc k)
  then have "n div 2 < 2 ^ k" by simp
  from Suc.IH [OF this] show ?case by (subst bitLen.simps) simp
qed

lemma bitLen_GWEI: "bitLen 1000000000 = 30"
  by (simp add: bitLen.simps)

text \<open>Below \<open>2 ^ 34 * 10 ^ 9\<close> the quotient by \<open>10 ^ 9\<close> keeps at least 30 bits after
  the binary point.\<close>

lemma quoShift_ge:
  assumes "a < 2 ^ 34 * 1000000000"
  shows "30 \<le> quoShift 64 a 1000000000"
proof -
  have "a < 2 ^ 64" using assms by simp
  then have le: "bitLen a \<le> 64" by (rule bitLen_le)
  show ?thesis
  proof (cases "bitLen a = 64")
    case True
    then show ?thesis using assms by (simp add: quoShift_def bitLen_GWEI)
  next
    case False
    with le have "bitLen a \<le> 63" by simp
    then show ?thesis by (simp add: quoShift_def bitLen_GWEI Let_def)
  qed
qed

lemma SetInt_prec: "\<bar>r\<bar> < 2 ^ 34 * 1000000000 \<Longrightarrow> fprec (SetInt r) = 64"
proof -
  assume "\<bar>r\<bar> < 2 ^ 34 * 1000000000"
  then have "nat \<bar>r\<bar> < 2 ^ 64" by simp
  then have "bitLen (nat \<bar>r\<bar>) \<le> 64" by (rule bitLen_le)
  then show ?thesis by (simp add: SetInt_def)
qed

lemma scaled_back:
  assumes "30 \<le> k"
  shows "roundHalfEven (roundHalfEven (a * 2 ^ k) 1000000000 * 1000000000) (2 ^ k) = a"
proof (rule roundHalfEven_nearest)
  let ?m = "roundHalfEven (a * 2 ^ k) 1000000000"
  have "2 * \<bar>int ?m * int 1000000000 - int (a * 2 ^ k)\<bar> \<le> int 1000000000"
    by (rule roundHalfEven_error) simp
  moreover have "(1000000000::int) < 2 ^ 30" by simp
  moreover have "(2::int) ^ 30 \<le> 2 ^ k" using assms by (rule power_increasing) simp
  ultimately show "2 * \<bar>int (?m * 1000000000) - int a * int (2 ^ k)\<bar> < int (2 ^ k)"
    by (simp add: abs_minus_commute)
qed

text \<open>Below the bound the division and the rendering lose nothing.\<close>

lemma Text_Quo_exact:
  assumes "\<bar>r\<bar> < 2 ^ 34 * 1000000000"
  shows "Text_f (Quo (SetInt r) (SetInt GWEI)) 9 = fixed9 r"
proof (cases "r = 0")
  case True
  then show ?thesis
    by (simp add: Text_f_def Quo_def SetInt_def fixed9_def Let_def GWEI_def)
next
  case False
  define a where "a = nat \<bar>r\<bar>"
  define k where "k = quoShift 64 a 1000000000"
  have a: "a < 2 ^ 34 * 1000000000" "a \<noteq> 0" using assms False by (simp_all add: a_def)
  have k: "30 \<le> k" unfolding k_def using a(1) by (rule quoShift_ge)
  then have nk: "30 \<le> nat k" by simp
  have pg: "fprec (SetInt GWEI) = 64" by (simp add: SetInt_def GWEI_def bitLen_GWEI)
  have q: "Quo (SetInt r) (SetInt GWEI) =
      \<lparr>fprec = 64, fneg = (r < 0),
       fmant = roundHalfEven (a * 2 ^ nat k) 1000000000, fexp = - k\<rparr>"
    using a(2) k SetInt_prec [OF assms] pg
    by (simp add: Quo_def Let_def k_def a_def) (simp add: SetInt_def GWEI_def)
  show ?thesis
    using k scaled_back [OF nk, of a]
    by (simp add: q Text_f_def fixed9_def a_def Let_def)
qed

lemma isDigit_digitChar: "d < 10 \<Longrightarrow> isDigit (digitChar d)"
proof -
  assume "d < 10"
  then have "d = 0 \<or> d = 1 \<or> d = 2 \<or> d = 3 \<or> d = 4 \<or> d = 5 \<or> d = 6 \<or> d = 7
      \<or> d = 8 \<or> d = 9"
    by arith
  then show ?thesis
    by (auto simp: isDigit_def digitChar_def)
qed

lemma decimal_digits: "decimal n \<noteq> [] \<and> list_all isDigit (decimal n)"
proof (induction n rule: decimal.induct)
  case (1 n)
  show ?case
  proof (cases "n < 10")
    case True
    then show ?thesis by (subst (1 2) decimal.simps) (simp add: isDigit_digitChar)
  next
    case False
    with "1" show ?thesis by (subst (1 2) decimal.simps) (simp add: isDigit_digitChar)
  qed
qed

lemma fraction_digits: "length (fraction n v) = n \<and> list_all isDigit (fraction n v)"
  by (simp add: fraction_def list_all_iff isDigit_digitChar)

lemma not_isDigit_point: "\<not> isDigit CHR ''.''"
  by (simp add: isDigit_def)

lemma nineDecimals_intro:
  assumes "ip \<noteq> []" "list_all isDigit ip" "length fp = 9" "list_all isDigit fp"
  shows "nineDecimals neg ((if neg then ''-'' else []) @ ip @ ''.'' @ fp)"
proof -
  have tw: "takeWhile isDigit (ip @ CHR ''.'' # fp) = ip"
    using assms(2) not_isDigit_point by (simp add: list_all_iff takeWhile_tail)
  have dw: "dropWhile isDigit (ip @ CHR ''.'' # fp) = CHR ''.'' # fp"
    using assms(2) not_isDigit_point by (simp add: list_all_iff dropWhile_append3)
  obtain ch cs where ip: "ip = ch # cs" using assms(1) by (cases ip) auto
  show ?thesis
    using assms tw dw by (cases neg) (simp_all add: nineDecimals_def Let_def ip)
qed

lemma fneg_Quo_SetInt: "fneg (Quo (SetInt r) (SetInt GWEI)) = (r < 0)"
  by (simp add: Quo_def SetInt_def GWEI_def Let_def)

lemma Text_f_shape: "nineDecimals (fneg x) (Text_f x 9)"
  using nineDecimals_intro [where neg = "fneg x"] decimal_digits fraction_digits
  by (simp add: Text_f_def Let_def)

lemma Text_Quo_shape: "nineDecimals (r < 0) (Text_f (Quo (SetInt r) (SetInt GWEI)) 9)"
  using Text_f_shape [of "Quo (SetInt r) (SetInt GWEI)"] by (simp add: fneg_Quo_SetInt)

lemma sint_below:
  assumes "uint (w :: 64 word) < 2 ^ 63"
  shows "sint w = uint w"
proof -
  have "- (2 ^ 63) \<le> uint w"
    by (rule order_trans [of _ 0]) simp_all
  then have "signed_take_bit 63 (uint w) = uint w"
    using assms by (rule signed_take_bit_int_eq_self)
  then show ?thesis by (simp add: sint_uint)
qed

section \<open>The reward string\<close>

text \<open>
  C1, as amended. For every resolved block the query returns normally, also when the
  reward is negative or zero. The reward string is \<open>Text('f', 9)\<close> of the quotient of
  the reward in native units by \<open>GWEI\<close>: it has an integer part, a point and exactly nine
  digits after it, and it starts with a minus sign exactly when the reward is negative.
  The reward in native units is the sum of the costs minus base fee times gas used, as
  long as the gas used is below \<open>2 ^ 63\<close>. The string is the exact decimal rendering of
  the reward divided by \<open>10 ^ 9\<close> whenever the reward is below \<open>2 ^ 34 * 10 ^ 9\<close> in
  absolute value (about 17.18 units of the currency): the quotient is a Float with a
  mantissa of 64 bits.
\<close>

theorem reward_rendering:
  assumes "resolves c slotId blk"
  shows "\<exists>reward status.
           snd (GetBlockRewardAndStatusBySlot c slotId) = Inr (reward, status) \<and>
           reward = Text_f (Quo (SetInt (nativeReward c blk)) (SetInt GWEI)) 9 \<and>
           nineDecimals (nativeReward c blk < 0) reward \<and>
           (uint (GasUsed blk) < 2 ^ 63 \<longrightarrow>
              nativeReward c blk =
                sum_list (map (\<lambda>tx. fst (txCostAndPrice c tx)) (Transactions blk))
                  - BaseFee blk * uint (GasUsed blk)) \<and>
           (\<bar>nativeReward c blk\<bar> < 2 ^ 34 * 10 ^ 9 \<longrightarrow> reward = fixed9 (nativeReward c blk))"
proof -
  have "snd (GetBlockRewardAndStatusBySlot c slotId) = Inr (rewardAndStatus c blk)"
    using assms by (rule resolved_query)
  moreover have "\<bar>nativeReward c blk\<bar> < 2 ^ 34 * 10 ^ 9 \<Longrightarrow>
      Text_f (Quo (SetInt (nativeReward c blk)) (SetInt GWEI)) 9 = fixed9 (nativeReward c blk)"
    using Text_Quo_exact [of "nativeReward c blk"] by simp
  moreover have "uint (GasUsed blk) < 2 ^ 63 \<Longrightarrow>
      nativeReward c blk =
        sum_list (map (\<lambda>tx. fst (txCostAndPrice c tx)) (Transactions blk))
          - BaseFee blk * uint (GasUsed blk)"
    by (simp add: nativeReward_def sint_below)
  ultimately show ?thesis
    using Text_Quo_shape [of "nativeReward c blk"] by (simp add: rewardAndStatus_eq)
qed

lemma sample_nativeReward: "nativeReward sampleClient sampleBlock = 2100000"
  by (simp add: nativeReward_def txCostAndPrice_def Cost_def client_defs)

theorem reward_rendering_witness:
  "resolves sampleClient ''4700013'' sampleBlock \<and>
   uint (GasUsed sampleBlock) < 2 ^ 63 \<and>
   \<bar>nativeReward sampleClient sampleBlock\<bar> < 2 ^ 34 * 10 ^ 9 \<and>
   snd (GetBlockRewardAndStatusBySlot sampleClient ''4700013'')
     = Inr (fixed9 (nativeReward sampleClient sampleBlock), ''mev'') \<and>
   nineDecimals False (fixed9 (nativeReward sampleClient sampleBlock)) \<and>
   fixed9 (nativeReward sampleClient sampleBlock) = ''0.002100000''"
proof -
  have g: "uint (GasUsed sampleBlock) < 2 ^ 63"
    by (simp add: sampleBlock_def)
  show ?thesis
    using reward_rendering [OF sample_resolves] sample_resolves sample_result g
    by (auto simp: sample_nativeReward)
qed

lemma large_resolves: "resolves (withBlock largeRewardBlock) ''4700013'' largeRewardBlock"
  by (simp add: resolves_def client_defs query_defs)

text \<open>The claim as stated fails above the bound: a reward of 17429790000000021000
  native units is rendered with the digits \<open>...000020999\<close>.\<close>

theorem reward_rendering_counterexample:
  "resolves (withBlock largeRewardBlock) ''4700013'' largeRewardBlock \<and>
   nativeReward (withBlock largeRewardBlock) largeRewardBlock = 17429790000000021000 \<and>
   fixed9 17429790000000021000 = ''17429790000.000021000'' \<and>
   snd (GetBlockRewardAndStatusBySlot (withBlock largeRewardBlock) ''4700013'')
     = Inr (''17429790000.000020999'', ''mev'')"
proof -
  have nr: "nativeReward (withBlock largeRewardBlock) largeRewardBlock = 17429790000000021000"
    by (simp add: nativeReward_def txCostAndPrice_def Cost_def client_defs largeRewardBlock_def)
  have fx: "fixed9 17429790000000021000 = ''17429790000.000021000''"
    by (simp add: fixed9_def float_defs)
  have tx: "Text_f (Quo (SetInt 17429790000000021000) (SetInt GWEI)) 9 = ''17429790000.000020999''"
    by (simp add: float_defs)
  have st: "\<exists>tx \<in> set (Transactions largeRewardBlock).
      BaseFee largeRewardBlock * MevFeeCalculationFactor < price (withBlock largeRewardBlock) tx"
    by (simp add: largeRewardBlock_def price_def client_defs MevFeeCalculationFactor_def)
  show ?thesis
    using large_resolves nr fx tx st
    by (simp add: resolved_query [OF large_resolves] rewardAndStatus_eq)
qed

section \<open>The empty block\<close>

text \<open>
  C10, as amended. For a resolved block without transactions the query returns normally,
  with the status \<open>vanilla\<close> and the rendering of \<open>0 - BaseFee * GasUsed\<close> divided by
  \<open>GWEI\<close> (the gas used read as a signed 64-bit value, as the code converts it): a string
  with exactly nine digits after the point, behind a minus sign when the value is
  negative. It is the exact decimal rendering of \<open>(0 - baseFee * gasUsed) / 10 ^ 9\<close>
  whenever the gas used is below \<open>2 ^ 63\<close> and the burnt fee below \<open>2 ^ 34 * 10 ^ 9\<close>.
\<close>

theorem empty_block:
  assumes "resolves c slotId blk" and "Transactions blk = []"
  shows "\<exists>reward.
           snd (GetBlockRewardAndStatusBySlot c slotId) = Inr (reward, ''vanilla'') \<and>
           reward = Text_f (Quo (SetInt (0 - BaseFee blk * sint (GasUsed blk))) (SetInt GWEI)) 9 \<and>
           nineDecimals (0 - BaseFee blk * sint (GasUsed blk) < 0) reward \<and>
           (uint (GasUsed blk) < 2 ^ 63 \<and> \<bar>BaseFee blk * uint (GasUsed blk)\<bar> < 2 ^ 34 * 10 ^ 9 \<longrightarrow>
              reward = fixed9 (0 - BaseFee blk * uint (GasUsed blk)))"
proof -
  let ?r = "0 - BaseFee blk * sint (GasUsed blk)"
  have nr: "nativeReward c blk = ?r"
    using assms(2) by (simp add: nativeReward_def)
  have res: "snd (GetBlockRewardAndStatusBySlot c slotId) = Inr (rewardAndStatus c blk)"
    using assms(1) by (rule resolved_query)
  have ex: "uint (GasUsed blk) < 2 ^ 63 \<Longrightarrow> \<bar>BaseFee blk * uint (GasUsed blk)\<bar> < 2 ^ 34 * 10 ^ 9 \<Longrightarrow>
      Text_f (Quo (SetInt ?r) (SetInt GWEI)) 9 = fixed9 (0 - BaseFee blk * uint (GasUsed blk))"
    using Text_Quo_exact [of "0 - BaseFee blk * uint (GasUsed blk)"] by (simp add: sint_below)
  show ?thesis
    using res ex Text_Quo_shape [of ?r] assms(2)
    by (simp add: rewardAndStatus_eq nr)
qed

lemma empty_resolves: "resolves (withBlock emptyBlock) ''4700013'' emptyBlock"
  by (simp add: resolves_def client_defs query_defs)

theorem empty_block_witness:
  "resolves (withBlock emptyBlock) ''4700013'' emptyBlock \<and>
   Transactions emptyBlock = [] \<and>
   uint (GasUsed emptyBlock) < 2 ^ 63 \<and>
   \<bar>BaseFee emptyBlock * uint (GasUsed emptyBlock)\<bar> < 2 ^ 34 * 10 ^ 9 \<and>
   snd (GetBlockRewardAndStatusBySlot (withBlock emptyBlock) ''4700013'')
     = Inr (fixed9 (0 - BaseFee emptyBlock * uint (GasUsed emptyBlock)), ''vanilla'') \<and>
   fixed9 (0 - BaseFee emptyBlock * uint (GasUsed emptyBlock)) = ''-0.000210000''"
proof -
  have t: "Transactions emptyBlock = []"
    by (simp add: emptyBlock_def)
  have g: "uint (GasUsed emptyBlock) < 2 ^ 63"
    "\<bar>BaseFee emptyBlock * uint (GasUsed emptyBlock)\<bar> < 2 ^ 34 * 10 ^ 9"
    by (simp_all add: emptyBlock_def)
  have v: "BaseFee emptyBlock * uint (GasUsed emptyBlock) = 210000"
    by (simp add: emptyBlock_def)
  have fx: "fixed9 (- 210000) = ''-0.000210000''"
    by (simp add: fixed9_def float_defs)
  show ?thesis
    using empty_block [OF empty_resolves t] empty_resolves t g
    by (auto simp: v fx)
qed

lemma burn_resolves: "resolves (withBlock largeBurnBlock) ''4700013'' largeBurnBlock"
  by (simp add: resolves_def client_defs query_defs)

text \<open>The claim as stated fails above the bound: a burnt fee of 17400000000030000000
  native units is rendered with the digits \<open>...029999999\<close>.\<close>

theorem empty_block_counterexample:
  "resolves (withBlock largeBurnBlock) ''4700013'' largeBurnBlock \<and>
   Transactions largeBurnBlock = [] \<and>
   fixed9 (0 - BaseFee largeBurnBlock * uint (GasUsed largeBurnBlock))
     = ''-17400000000.030000000'' \<and>
   snd (GetBlockRewardAndStatusBySlot (withBlock largeBurnBlock) ''4700013'')
     = Inr (''-17400000000.029999999'', ''vanilla'')"
proof -
  have nr: "nativeReward (withBlock largeBurnBlock) largeBurnBlock = - 17400000000030000000"
    by (simp add: nativeReward_def largeBurnBlock_def)
  have v: "BaseFee largeBurnBlock * uint (GasUsed largeBurnBlock) = 17400000000030000000"
    by (simp add: largeBurnBlock_def)
  have fx: "fixed9 (- 17400000000030000000) = ''-17400000000.030000000''"
    by (simp add: fixed9_def float_defs)
  have tx: "Text_f (Quo (SetInt (- 17400000000030000000)) (SetInt GWEI)) 9
      = ''-17400000000.029999999''"
    by (simp add: float_defs)
  have t: "Transactions largeBurnBlock = []"
    by (simp add: largeBurnBlock_def)
  show ?thesis
    using burn_resolves fx tx t
    by (simp add: resolved_query [OF burn_resolves] rewardAndStatus_eq nr v)
qed

section \<open>Reordering the transactions\<close>

lemma sum_list_mset_cong:
  fixes f :: "'a \<Rightarrow> int"
  assumes "mset xs = mset ys"
  shows "sum_list (map f xs) = sum_list (map f ys)"
proof -
  have "mset (map f xs) = mset (map f ys)"
    using assms by (metis mset_map)
  then show ?thesis
    by (metis sum_mset_sum_list)
qed

text \<open>
  C5. Two resolved blocks with the same base fee, the same gas used and the same
  transactions in a different order, each transaction with its own receipt outcome (the
  receipts of both upstreams agree), give the same result: the same reward string and the
  same status.
\<close>

theorem reorder_invariant:
  assumes "resolves c slotId blk" and "resolves c' slotId' blk'"
    and "TransactionReceipt c' = TransactionReceipt c"
    and "BaseFee blk' = BaseFee blk" and "GasUsed blk' = GasUsed blk"
    and "mset (Transactions blk') = mset (Transactions blk)"
  shows "snd (GetBlockRewardAndStatusBySlot c' slotId')
         = snd (GetBlockRewardAndStatusBySlot c slotId)"
proof -
  have cp: "txCostAndPrice c' = txCostAndPrice c"
    using assms(3) by (simp add: txCostAndPrice_def fun_eq_iff)
  have pr: "price c' = price c"
    using assms(3) by (simp add: price_def fun_eq_iff)
  have "sum_list (map (\<lambda>tx. fst (txCostAndPrice c tx)) (Transactions blk'))
      = sum_list (map (\<lambda>tx. fst (txCostAndPrice c tx)) (Transactions blk))"
    using assms(6) by (rule sum_list_mset_cong)
  then have nr: "nativeReward c' blk' = nativeReward c blk"
    using assms(4,5) by (simp add: nativeReward_def cp)
  have st: "set (Transactions blk') = set (Transactions blk)"
    using assms(6) by (rule mset_eq_setD)
  have "rewardAndStatus c' blk' = rewardAndStatus c blk"
    by (simp add: rewardAndStatus_eq nr st pr assms(4))
  then show ?thesis
    using resolved_query [OF assms(1)] resolved_query [OF assms(2)] by simp
qed

lemma reversed_resolves: "resolves (withBlock reversedBlock) ''4700013'' reversedBlock"
  by (simp add: resolves_def client_defs query_defs)

theorem reorder_invariant_witness:
  "resolves sampleClient ''4700013'' sampleBlock \<and>
   resolves (withBlock reversedBlock) ''4700013'' reversedBlock \<and>
   TransactionReceipt (withBlock reversedBlock) = TransactionReceipt sampleClient \<and>
   BaseFee reversedBlock = BaseFee sampleBlock \<and> GasUsed reversedBlock = GasUsed sampleBlock \<and>
   mset (Transactions reversedBlock) = mset (Transactions sampleBlock) \<and>
   Transactions reversedBlock \<noteq> Transactions sampleBlock \<and>
   snd (GetBlockRewardAndStatusBySlot (withBlock reversedBlock) ''4700013'')
     = snd (GetBlockRewardAndStatusBySlot sampleClient ''4700013'')"
proof -
  have r: "TransactionReceipt (withBlock reversedBlock) = TransactionReceipt sampleClient"
    by (simp add: withBlock_def)
  have b: "BaseFee reversedBlock = BaseFee sampleBlock" "GasUsed reversedBlock = GasUsed sampleBlock"
    by (simp_all add: reversedBlock_def)
  have m: "mset (Transactions reversedBlock) = mset (Transactions sampleBlock)"
    by (simp add: reversedBlock_def)
  have d: "Transactions reversedBlock \<noteq> Transactions sampleBlock"
    by (simp add: reversedBlock_def sampleBlock_def)
  show ?thesis
    using reorder_invariant [OF sample_resolves reversed_resolves r b m]
      sample_resolves reversed_resolves r b m d
    by simp
qed

section \<open>The fallback cost\<close>

lemma transfer_resolves: "resolves (withBlock transferBlock) ''4700013'' transferBlock"
  by (simp add: resolves_def client_defs query_defs)

text \<open>
  C3. When the receipt fetch of a transaction fails, the cost is to be the declared gas
  price times the gas limit. On the block with one transaction of gas price 20, gas limit
  21000 and a transferred value of 1000000000, whose receipt fetch fails, the code adds
  1000420000 to the costs, not 420000: \<open>tx.Cost()\<close> counts the transferred value in.
  The query returns the reward 1.000210000 where the fee alone gives 0.000210000.
\<close>

theorem fallback_cost_with_value:
  "resolves (withBlock transferBlock) ''4700013'' transferBlock \<and>
   map (\<lambda>tx. TransactionReceipt (withBlock transferBlock) (txHash tx)) (Transactions transferBlock)
     = [None] \<and>
   map (\<lambda>tx. txGasPrice tx * uint (txGas tx)) (Transactions transferBlock) = [420000] \<and>
   map (specCost (withBlock transferBlock)) (Transactions transferBlock) = [420000] \<and>
   map (\<lambda>tx. fst (txCostAndPrice (withBlock transferBlock) tx)) (Transactions transferBlock)
     = [1000420000] \<and>
   snd (GetBlockRewardAndStatusBySlot (withBlock transferBlock) ''4700013'')
     = Inr (''1.000210000'', ''vanilla'')"
proof -
  have nr: "nativeReward (withBlock transferBlock) transferBlock = 1000210000"
    by (simp add: nativeReward_def txCostAndPrice_def Cost_def client_defs transferBlock_def)
  have tx: "Text_f (Quo (SetInt 1000210000) (SetInt GWEI)) 9 = ''1.000210000''"
    by (simp add: float_defs)
  have st: "\<not> (\<exists>tx \<in> set (Transactions transferBlock).
      BaseFee transferBlock * MevFeeCalculationFactor < price (withBlock transferBlock) tx)"
    by (simp add: transferBlock_def price_def client_defs MevFeeCalculationFactor_def)
  have cs: "map (\<lambda>tx. fst (txCostAndPrice (withBlock transferBlock) tx)) (Transactions transferBlock)
     = [1000420000]"
    "map (specCost (withBlock transferBlock)) (Transactions transferBlock) = [420000]"
    "map (\<lambda>tx. txGasPrice tx * uint (txGas tx)) (Transactions transferBlock) = [420000]"
    "map (\<lambda>tx. TransactionReceipt (withBlock transferBlock) (txHash tx)) (Transactions transferBlock)
     = [None]"
    by (simp_all add: txCostAndPrice_def specCost_def Cost_def client_defs transferBlock_def)
  show ?thesis
    using transfer_resolves tx st cs
    by (simp add: resolved_query [OF transfer_resolves] rewardAndStatus_eq nr)
qed

section \<open>Slot strings that do not parse\<close>

lemma digitVal_None: "(digitVal ch = None) = (\<not> isDigit ch)"
  by (simp add: digitVal_def isDigit_def)

lemma scanDigits_None: "(scanDigits acc ds = None) = (\<not> list_all isDigit ds)"
proof (induction ds arbitrary: acc)
  case Nil
  show ?case by simp
next
  case (Cons ch ds)
  show ?case
  proof (cases "digitVal ch")
    case None
    then show ?thesis using digitVal_None [of ch] by simp
  next
    case (Some d)
    then have "isDigit ch" using digitVal_None [of ch] by simp
    then show ?thesis by (simp add: Some Cons.IH)
  qed
qed

lemma SetString_None: "(SetString s = None) = (\<not> signedLiteral s)"
proof (cases s)
  case Nil
  then show ?thesis by (simp add: SetString_def signedLiteral_def)
next
  case (Cons ch cs)
  have "\<not> isDigit CHR ''-''" "\<not> isDigit CHR ''+''"
    by (simp_all add: isDigit_def)
  then show ?thesis
    using scanDigits_None [of 0 cs] scanDigits_None [of 0 "ch # cs"]
    by (auto simp: Cons SetString_def signedLiteral_def unsignedLiteral_def
        simp del: scanDigits.simps split: option.splits)
qed

lemma SetString_minus:
  assumes "unsignedLiteral ds"
  shows "\<exists>n. SetString (CHR ''-'' # ds) = Some (- int n)"
proof -
  from assms have "scanDigits 0 ds \<noteq> None"
    by (simp add: scanDigits_None unsignedLiteral_def)
  then obtain n where "scanDigits 0 ds = Some n" by auto
  moreover have "ds \<noteq> []" using assms by (simp add: unsignedLiteral_def)
  ultimately show ?thesis by (simp add: SetString_def)
qed

text \<open>
  C8, as amended. For every slot string that is not a decimal integer literal with an
  optional sign, the reward query fails with the generic parse error, before any bound
  check and without any upstream call. A negative literal does parse: the query rejects
  it at the floor check, with \<open>SlotMissing\<close>, again without any upstream call.
\<close>

theorem slot_parse_failure:
  "(\<not> signedLiteral slotId \<longrightarrow>
      GetBlockRewardAndStatusBySlot c slotId
        = ([], Inl (ParseError ''can not convert slotId to bigInt''))) \<and>
   (unsignedLiteral ds \<longrightarrow>
      GetBlockRewardAndStatusBySlot c (CHR ''-'' # ds)
        = ([], Inl (SlotMissingError ''Slot is missing'')))"
proof (intro conjI impI)
  assume "\<not> signedLiteral slotId"
  then have "SetString slotId = None" by (simp add: SetString_None)
  then show "GetBlockRewardAndStatusBySlot c slotId
      = ([], Inl (ParseError ''can not convert slotId to bigInt''))"
    by (simp add: GetBlockRewardAndStatusBySlot_def)
next
  assume "unsignedLiteral ds"
  then obtain n where "SetString (CHR ''-'' # ds) = Some (- int n)"
    using SetString_minus by blast
  then show "GetBlockRewardAndStatusBySlot c (CHR ''-'' # ds)
      = ([], Inl (SlotMissingError ''Slot is missing''))"
    by (simp add: GetBlockRewardAndStatusBySlot_def BlocksAvailableAfterSlot_def)
qed

theorem slot_parse_failure_witness:
  "\<not> signedLiteral ''47x'' \<and>
   GetBlockRewardAndStatusBySlot sampleClient ''47x''
     = ([], Inl (ParseError ''can not convert slotId to bigInt'')) \<and>
   unsignedLiteral ''4700013'' \<and>
   GetBlockRewardAndStatusBySlot sampleClient ''-4700013''
     = ([], Inl (SlotMissingError ''Slot is missing''))"
proof -
  have a: "\<not> signedLiteral ''47x''"
    by (simp add: signedLiteral_def unsignedLiteral_def isDigit_def)
  have b: "unsignedLiteral ''4700013''"
    by (simp add: unsignedLiteral_def isDigit_def)
  show ?thesis
    using slot_parse_failure [of "''47x''" sampleClient "''4700013''"] a b by simp
qed

text \<open>The claim as stated fails on a negative literal: it is no non-negative literal,
  and the query answers \<open>SlotMissing\<close>, not a parse error.\<close>

theorem negative_slot_counterexample:
  "\<not> unsignedLiteral ''-5'' \<and>
   GetBlockRewardAndStatusBySlot sampleClient ''-5''
     = ([], Inl (SlotMissingError ''Slot is missing''))"
  by (simp add: unsignedLiteral_def isDigit_def query_defs)

section \<open>Slot bounds\<close>

lemma sendAPIRequest_SlotMissing:
  "(sendAPIRequest r = Inl (SlotMissingError m)) = (status400 r \<and> m = ''Slot is not found'')"
  by (auto simp: sendAPIRequest_def status400_def split: reply.splits option.splits)

lemma sendAPIRequest_FutureSlot:
  "sendAPIRequest r = Inl (FutureSlotError m) \<Longrightarrow> m = ''Slot is in the future''"
  by (auto simp: sendAPIRequest_def split: reply.splits option.splits if_splits)

lemma duties_SlotMissing:
  "(snd (GetSyncCommitteeDuties c slotId) = Inl (SlotMissingError m)) =
     (m = ''Slot is not found'' \<and>
      (status400 (syncCommitteesReply c (BaseUrl c @ StatePath @ slotId @ ''/sync_committees'')) \<or>
       (\<exists>v. sendAPIRequest
               (syncCommitteesReply c (BaseUrl c @ StatePath @ slotId @ ''/sync_committees''))
             = Inr v \<and>
            status400 (validatorsReply c
               (BaseUrl c @ StatePath @ slotId @ ''/validators'' @ idParams 0 v)))))"
proof (cases "sendAPIRequest
    (syncCommitteesReply c (BaseUrl c @ StatePath @ slotId @ ''/sync_committees''))")
  case (Inl e)
  then show ?thesis
    using sendAPIRequest_SlotMissing
      [of "syncCommitteesReply c (BaseUrl c @ StatePath @ slotId @ ''/sync_committees'')" m]
    by (auto simp: GetSyncCommitteeDuties_def getSyncCommitteesValidatorIndexes_def Let_def)
next
  case (Inr v)
  then have n4: "\<not> status400
      (syncCommitteesReply c (BaseUrl c @ StatePath @ slotId @ ''/sync_committees''))"
    by (auto simp: sendAPIRequest_def status400_def split: reply.splits option.splits if_splits)
  show ?thesis
    using Inr n4 sendAPIRequest_SlotMissing
      [of "validatorsReply c (BaseUrl c @ StatePath @ slotId @ ''/validators'' @ idParams 0 v)" m]
    by (auto simp: GetSyncCommitteeDuties_def getSyncCommitteesValidatorIndexes_def
        getPubKeysOfSyncCommittees_def Let_def split: sum.splits)
qed

text \<open>
  C4, as amended. For every slot string that parses to an integer \<open>s\<close>: if \<open>s\<close> is at
  most the floor, the reward query fails with \<open>SlotMissing\<close> before any upstream call, the
  head fetch included; if \<open>s\<close> is above the floor and above the head slot that
  \<open>getCurrentSlotId\<close> returns, the reward query fails with \<open>FutureSlot\<close> after the head
  fetch alone. The duty query makes no floor check: it fails with \<open>SlotMissing\<close> exactly
  when the upstream answers 400 to the sync-committee request, or to the validators
  request after the first one succeeded.
\<close>

theorem slot_bounds:
  assumes "SetString slotId = Some s"
  shows "(s \<le> BlocksAvailableAfterSlot \<longrightarrow>
            GetBlockRewardAndStatusBySlot c slotId
              = ([], Inl (SlotMissingError ''Slot is missing''))) \<and>
         (BlocksAvailableAfterSlot < s \<and> snd (getCurrentSlotId c) = Inr h \<and> h < s \<longrightarrow>
            GetBlockRewardAndStatusBySlot c slotId
              = ([RestGet (BaseUrl c @ ''/eth/v1/beacon/headers'')],
                 Inl (FutureSlotError ''Slot is in the future''))) \<and>
         ((snd (GetSyncCommitteeDuties c slotId) = Inl (SlotMissingError m)) =
            (m = ''Slot is not found'' \<and>
             (status400
                (syncCommitteesReply c (BaseUrl c @ StatePath @ slotId @ ''/sync_committees'')) \<or>
              (\<exists>v. sendAPIRequest
                      (syncCommitteesReply c
                         (BaseUrl c @ StatePath @ slotId @ ''/sync_committees''))
                    = Inr v \<and>
                   status400 (validatorsReply c
                      (BaseUrl c @ StatePath @ slotId @ ''/validators'' @ idParams 0 v))))))"
proof (intro conjI impI)
  assume "s \<le> BlocksAvailableAfterSlot"
  then show "GetBlockRewardAndStatusBySlot c slotId
      = ([], Inl (SlotMissingError ''Slot is missing''))"
    using assms by (simp add: GetBlockRewardAndStatusBySlot_def)
next
  assume h: "BlocksAvailableAfterSlot < s \<and> snd (getCurrentSlotId c) = Inr h \<and> h < s"
  have "fst (getCurrentSlotId c) = [RestGet (BaseUrl c @ ''/eth/v1/beacon/headers'')]"
    by (simp add: getCurrentSlotId_def Let_def)
  with h have "getCurrentSlotId c = ([RestGet (BaseUrl c @ ''/eth/v1/beacon/headers'')], Inr h)"
    by (cases "getCurrentSlotId c") simp
  then show "GetBlockRewardAndStatusBySlot c slotId
      = ([RestGet (BaseUrl c @ ''/eth/v1/beacon/headers'')],
         Inl (FutureSlotError ''Slot is in the future''))"
    using assms h by (simp add: GetBlockRewardAndStatusBySlot_def)
next
  show "(snd (GetSyncCommitteeDuties c slotId) = Inl (SlotMissingError m)) =
      (m = ''Slot is not found'' \<and>
       (status400
          (syncCommitteesReply c (BaseUrl c @ StatePath @ slotId @ ''/sync_committees'')) \<or>
        (\<exists>v. sendAPIRequest
                (syncCommitteesReply c (BaseUrl c @ StatePath @ slotId @ ''/sync_committees''))
              = Inr v \<and>
             status400 (validatorsReply c
                (BaseUrl c @ StatePath @ slotId @ ''/validators'' @ idParams 0 v)))))"
    by (rule duties_SlotMissing)
qed

lemma sample_head: "snd (getCurrentSlotId sampleClient) = Inr 9000000"
  by (simp add: client_defs query_defs)

theorem slot_bounds_witness:
  "SetString ''5'' = Some 5 \<and> 5 \<le> BlocksAvailableAfterSlot \<and>
   GetBlockRewardAndStatusBySlot sampleClient ''5''
     = ([], Inl (SlotMissingError ''Slot is missing'')) \<and>
   SetString ''100000000000'' = Some 100000000000 \<and>
   BlocksAvailableAfterSlot < 100000000000 \<and>
   snd (getCurrentSlotId sampleClient) = Inr 9000000 \<and>
   GetBlockRewardAndStatusBySlot sampleClient ''100000000000''
     = ([RestGet ''http://node/eth/v1/beacon/headers''],
        Inl (FutureSlotError ''Slot is in the future'')) \<and>
   status400 (syncCommitteesReply badRequestClient
     (BaseUrl badRequestClient @ StatePath @ ''5'' @ ''/sync_committees'')) \<and>
   snd (GetSyncCommitteeDuties badRequestClient ''5'') = Inl (SlotMissingError ''Slot is not found'')"
proof -
  have p5: "SetString ''5'' = Some 5"
    by (simp add: SetString_def digitVal_def)
  have pf: "SetString ''100000000000'' = Some 100000000000"
    by (simp add: SetString_def digitVal_def)
  have fl: "5 \<le> BlocksAvailableAfterSlot" "BlocksAvailableAfterSlot < 100000000000"
    by (simp_all add: BlocksAvailableAfterSlot_def)
  have bu: "BaseUrl sampleClient = ''http://node''"
    by (simp add: sampleClient_def)
  have s4: "status400 (syncCommitteesReply badRequestClient
     (BaseUrl badRequestClient @ StatePath @ ''5'' @ ''/sync_committees''))"
    by (simp add: badRequestClient_def status400_def)
  show ?thesis
    using slot_bounds [OF p5, of sampleClient 0 "''Slot is not found''"]
      slot_bounds [OF pf, of sampleClient 9000000 "''Slot is not found''"]
      slot_bounds [OF p5, of badRequestClient 0 "''Slot is not found''"]
      p5 pf fl sample_head s4
    by (simp add: bu)
qed

text \<open>The claim as stated fails for the duty query: slot 1 is below the floor, and the
  query returns the public keys the upstream gives.\<close>

theorem duties_floor_counterexample:
  "SetString ''1'' = Some 1 \<and> 1 \<le> BlocksAvailableAfterSlot \<and>
   GetSyncCommitteeDuties sampleClient ''1''
     = ([RestGet ''http://node/eth/v1/beacon/states/1/sync_committees'',
         RestGet ''http://node/eth/v1/beacon/states/1/validators?id=7&id=8''],
        Inr [''0xk7'', ''0xk8''])"
  by (simp add: SetString_def digitVal_def BlocksAvailableAfterSlot_def
      GetSyncCommitteeDuties_def getSyncCommitteesValidatorIndexes_def
      getPubKeysOfSyncCommittees_def sendAPIRequest_def sampleClient_def StatePath_def)

section \<open>Responses to errors\<close>

lemma getCurrentSlotId_error: "snd (getCurrentSlotId c) = Inl e \<Longrightarrow> e = RuntimePanic"
  by (auto simp: getCurrentSlotId_def Let_def split: sum.splits list.splits option.splits)

lemma getBlockHash_error:
  "snd (getBlockHash c slotId) = Inl e \<Longrightarrow>
   sendAPIRequest (blockDetailReply c (BaseUrl c @ BlockDetailPath @ slotId)) = Inl e"
  by (auto simp: getBlockHash_def Let_def split: sum.splits)

lemma reward_query_SlotMissing:
  assumes "snd (GetBlockRewardAndStatusBySlot c slotId) = Inl (SlotMissingError m)"
  shows "\<exists>s. SetString slotId = Some s \<and>
           m = (if s \<le> BlocksAvailableAfterSlot then ''Slot is missing''
                else ''Slot is not found'')"
proof (cases "SetString slotId")
  case None
  with assms show ?thesis by (simp add: GetBlockRewardAndStatusBySlot_def)
next
  case (Some s)
  show ?thesis
  proof (cases "s \<le> BlocksAvailableAfterSlot")
    case True
    with assms Some show ?thesis by (simp add: GetBlockRewardAndStatusBySlot_def)
  next
    case False
    obtain l1 r1 where g: "getCurrentSlotId c = (l1, r1)" by (cases "getCurrentSlotId c")
    obtain l2 r2 where b: "getBlockHash c slotId = (l2, r2)" by (cases "getBlockHash c slotId")
    have "r2 = Inl (SlotMissingError m)"
      using assms Some False g b getCurrentSlotId_error [of c]
      by (auto simp: GetBlockRewardAndStatusBySlot_def
          split: sum.splits if_splits option.splits)
    then have "sendAPIRequest (blockDetailReply c (BaseUrl c @ BlockDetailPath @ slotId))
        = Inl (SlotMissingError m)"
      using getBlockHash_error [of c slotId] b by simp
    then have "m = ''Slot is not found''"
      by (simp add: sendAPIRequest_SlotMissing)
    with Some False show ?thesis by simp
  qed
qed

lemma reward_query_FutureSlot:
  assumes "snd (GetBlockRewardAndStatusBySlot c slotId) = Inl (FutureSlotError m)"
  shows "m = ''Slot is in the future''"
proof -
  obtain l1 r1 where g: "getCurrentSlotId c = (l1, r1)" by (cases "getCurrentSlotId c")
  obtain l2 r2 where b: "getBlockHash c slotId = (l2, r2)" by (cases "getBlockHash c slotId")
  have "m = ''Slot is in the future'' \<or> r2 = Inl (FutureSlotError m)"
    using assms g b getCurrentSlotId_error [of c]
    by (auto simp: GetBlockRewardAndStatusBySlot_def
        split: sum.splits if_splits option.splits)
  then show ?thesis
    using getBlockHash_error [of c slotId] b sendAPIRequest_FutureSlot by auto
qed

lemma duties_error:
  assumes "snd (GetSyncCommitteeDuties c slotId) = Inl e"
  shows "\<exists>r :: string list reply. sendAPIRequest r = Inl e"
  using assms
  by (auto simp: GetSyncCommitteeDuties_def getSyncCommitteesValidatorIndexes_def
      getPubKeysOfSyncCommittees_def Let_def split: sum.splits)

text \<open>
  C6, as amended. For both endpoints a query that fails with \<open>SlotMissing\<close> is answered
  with 404 and the message of the error, a query that fails with \<open>FutureSlot\<close> with 400
  and the message \<open>Slot is in the future\<close>, and every other failure with 500 and no
  value. The message of \<open>SlotMissing\<close> is \<open>Slot is missing\<close> when the floor check of
  the reward query rejects the slot, and \<open>Slot is not found\<close> when the error comes from
  the status 400 of the upstream, which is the only source in the duty query.
\<close>

theorem error_responses:
  "(snd (GetBlockRewardAndStatusBySlot c slotId) = Inl (SlotMissingError m) \<longrightarrow>
      GetBlockRewardHandler c slotId = (404, ErrorBody m) \<and>
      (\<exists>s. SetString slotId = Some s \<and>
           m = (if s \<le> BlocksAvailableAfterSlot then ''Slot is missing''
                else ''Slot is not found''))) \<and>
   (snd (GetBlockRewardAndStatusBySlot c slotId) = Inl (FutureSlotError m) \<longrightarrow>
      GetBlockRewardHandler c slotId = (400, ErrorBody m) \<and> m = ''Slot is in the future'') \<and>
   (snd (GetBlockRewardAndStatusBySlot c slotId) = Inl e \<and>
      (\<forall>m. e \<noteq> SlotMissingError m) \<and> (\<forall>m. e \<noteq> FutureSlotError m) \<longrightarrow>
      GetBlockRewardHandler c slotId = (500, NilBody)) \<and>
   (snd (GetSyncCommitteeDuties c slotId) = Inl (SlotMissingError m) \<longrightarrow>
      GetSyncDutiesHandler c slotId = (404, ErrorBody m) \<and> m = ''Slot is not found'') \<and>
   (snd (GetSyncCommitteeDuties c slotId) = Inl (FutureSlotError m) \<longrightarrow>
      GetSyncDutiesHandler c slotId = (400, ErrorBody m) \<and> m = ''Slot is in the future'') \<and>
   (snd (GetSyncCommitteeDuties c slotId) = Inl e \<and>
      (\<forall>m. e \<noteq> SlotMissingError m) \<and> (\<forall>m. e \<noteq> FutureSlotError m) \<longrightarrow>
      GetSyncDutiesHandler c slotId = (500, NilBody))"
proof (intro conjI impI)
  assume a: "snd (GetBlockRewardAndStatusBySlot c slotId) = Inl (SlotMissingError m)"
  then show "GetBlockRewardHandler c slotId = (404, ErrorBody m)"
    by (simp add: GetBlockRewardHandler_def)
  from a show "\<exists>s. SetString slotId = Some s \<and>
      m = (if s \<le> BlocksAvailableAfterSlot then ''Slot is missing'' else ''Slot is not found'')"
    by (rule reward_query_SlotMissing)
next
  assume a: "snd (GetBlockRewardAndStatusBySlot c slotId) = Inl (FutureSlotError m)"
  then show "GetBlockRewardHandler c slotId = (400, ErrorBody m)"
    by (simp add: GetBlockRewardHandler_def)
  from a show "m = ''Slot is in the future''"
    by (rule reward_query_FutureSlot)
next
  assume "snd (GetBlockRewardAndStatusBySlot c slotId) = Inl e \<and>
      (\<forall>m. e \<noteq> SlotMissingError m) \<and> (\<forall>m. e \<noteq> FutureSlotError m)"
  then show "GetBlockRewardHandler c slotId = (500, NilBody)"
    by (cases e) (simp_all add: GetBlockRewardHandler_def)
next
  assume a: "snd (GetSyncCommitteeDuties c slotId) = Inl (SlotMissingError m)"
  then show "GetSyncDutiesHandler c slotId = (404, ErrorBody m)"
    by (simp add: GetSyncDutiesHandler_def)
  from duties_error [OF a] show "m = ''Slot is not found''"
    by (auto simp: sendAPIRequest_SlotMissing)
next
  assume a: "snd (GetSyncCommitteeDuties c slotId) = Inl (FutureSlotError m)"
  then show "GetSyncDutiesHandler c slotId = (400, ErrorBody m)"
    by (simp add: GetSyncDutiesHandler_def)
  from duties_error [OF a] show "m = ''Slot is in the future''"
    using sendAPIRequest_FutureSlot by blast
next
  assume "snd (GetSyncCommitteeDuties c slotId) = Inl e \<and>
      (\<forall>m. e \<noteq> SlotMissingError m) \<and> (\<forall>m. e \<noteq> FutureSlotError m)"
  then show "GetSyncDutiesHandler c slotId = (500, NilBody)"
    by (cases e) (simp_all add: GetSyncDutiesHandler_def)
qed

lemmas duties_defs = GetSyncCommitteeDuties_def getSyncCommitteesValidatorIndexes_def
  getPubKeysOfSyncCommittees_def sendAPIRequest_def StatePath_def

theorem error_responses_witness:
  "snd (GetBlockRewardAndStatusBySlot sampleClient ''5'') = Inl (SlotMissingError ''Slot is missing'') \<and>
   GetBlockRewardHandler sampleClient ''5'' = (404, ErrorBody ''Slot is missing'') \<and>
   snd (GetBlockRewardAndStatusBySlot sampleClient ''100000000000'')
     = Inl (FutureSlotError ''Slot is in the future'') \<and>
   GetBlockRewardHandler sampleClient ''100000000000'' = (400, ErrorBody ''Slot is in the future'') \<and>
   snd (GetBlockRewardAndStatusBySlot sampleClient ''47x'')
     = Inl (ParseError ''can not convert slotId to bigInt'') \<and>
   GetBlockRewardHandler sampleClient ''47x'' = (500, NilBody) \<and>
   snd (GetSyncCommitteeDuties badRequestClient ''5'') = Inl (SlotMissingError ''Slot is not found'') \<and>
   GetSyncDutiesHandler badRequestClient ''5'' = (404, ErrorBody ''Slot is not found'') \<and>
   snd (GetSyncCommitteeDuties notFoundClient ''100000000000'')
     = Inl (FutureSlotError ''Slot is in the future'') \<and>
   GetSyncDutiesHandler notFoundClient ''100000000000'' = (400, ErrorBody ''Slot is in the future'') \<and>
   snd (GetSyncCommitteeDuties failedClient ''5'') = Inl TransportError \<and>
   GetSyncDutiesHandler failedClient ''5'' = (500, NilBody)"
proof -
  have q1: "snd (GetBlockRewardAndStatusBySlot sampleClient ''5'')
      = Inl (SlotMissingError ''Slot is missing'')"
    by (simp add: client_defs query_defs)
  have q2: "snd (GetBlockRewardAndStatusBySlot sampleClient ''100000000000'')
      = Inl (FutureSlotError ''Slot is in the future'')"
    by (simp add: client_defs query_defs)
  have q3: "snd (GetBlockRewardAndStatusBySlot sampleClient ''47x'')
      = Inl (ParseError ''can not convert slotId to bigInt'')"
    by (simp add: client_defs query_defs)
  have d1: "snd (GetSyncCommitteeDuties badRequestClient ''5'')
      = Inl (SlotMissingError ''Slot is not found'')"
    by (simp add: badRequestClient_def sampleClient_def duties_defs)
  have d2: "snd (GetSyncCommitteeDuties notFoundClient ''100000000000'')
      = Inl (FutureSlotError ''Slot is in the future'')"
    by (simp add: notFoundClient_def sampleClient_def duties_defs)
  have d3: "snd (GetSyncCommitteeDuties failedClient ''5'') = Inl TransportError"
    by (simp add: failedClient_def sampleClient_def duties_defs)
  have w1: "GetBlockRewardHandler sampleClient ''5'' = (404, ErrorBody ''Slot is missing'')"
    using error_responses [of sampleClient "''5''" "''Slot is missing''" TransportError] q1
    by blast
  have w2: "GetBlockRewardHandler sampleClient ''100000000000''
      = (400, ErrorBody ''Slot is in the future'')"
    using error_responses
      [of sampleClient "''100000000000''" "''Slot is in the future''" TransportError] q2
    by blast
  have w3: "GetBlockRewardHandler sampleClient ''47x'' = (500, NilBody)"
    using error_responses
      [of sampleClient "''47x''" "[]" "ParseError ''can not convert slotId to bigInt''"] q3
    by blast
  have w4: "GetSyncDutiesHandler badRequestClient ''5'' = (404, ErrorBody ''Slot is not found'')"
    using error_responses [of badRequestClient "''5''" "''Slot is not found''" TransportError] d1
    by blast
  have w5: "GetSyncDutiesHandler notFoundClient ''100000000000''
      = (400, ErrorBody ''Slot is in the future'')"
    using error_responses
      [of notFoundClient "''100000000000''" "''Slot is in the future''" TransportError] d2
    by blast
  have w6: "GetSyncDutiesHandler failedClient ''5'' = (500, NilBody)"
    using error_responses [of failedClient "''5''" "[]" TransportError] d3
    by blast
  show ?thesis
    using q1 q2 q3 d1 d2 d3 w1 w2 w3 w4 w5 w6 by simp
qed

text \<open>The claim as stated fails: the upstream answers 400 to the duty query, and the
  body carries \<open>Slot is not found\<close>, not \<open>Slot is missing\<close>.\<close>

theorem duties_message_counterexample:
  "snd (GetSyncCommitteeDuties badRequestClient ''10'') = Inl (SlotMissingError ''Slot is not found'') \<and>
   GetSyncDutiesHandler badRequestClient ''10'' = (404, ErrorBody ''Slot is not found'') \<and>
   GetSyncDutiesHandler badRequestClient ''10'' \<noteq> (404, ErrorBody ''Slot is missing'')"
  by (simp add: GetSyncDutiesHandler_def badRequestClient_def sampleClient_def duties_defs)

end
